theory Spec2Isabelle
  imports Main "HOL-Library.AList"
begin

section \<open>Gist backup and restore (backend/src/restful/index.js, gistBackup)\<close>

text \<open>
  The handler \<^verbatim>\<open>gistBackup(req, res)\<close> reads the settings, checks the GitHub token,
  and then either uploads the local state to a gist or downloads it back and runs the
  migration. It is embedded as a function from the collaborators it calls, the
  \<^verbatim>\<open>action\<close> query parameter and the state of the world to the response and the
  new state of the world. Every call to a collaborator is recorded in a trace, in the
  order in which the handler makes it.
\<close>

subsection \<open>JavaScript values\<close>

text \<open>
  The values a settings property can hold. Numbers are the integer-valued ones (a
  timestamp in milliseconds is one) and NaN; every other number is truthy and plays no
  part here. \<open>JObject\<close> stands for any object or array.
\<close>

datatype jsval =
    JUndefined
  | JNull
  | JBool bool
  | JNum int
  | JNaN
  | JStr string
  | JObject

text \<open>The test \<^verbatim>\<open>!gistToken\<close> is on truthiness.\<close>

fun truthy :: "jsval \<Rightarrow> bool" where
  "truthy JUndefined = False"
| "truthy JNull = False"
| "truthy (JBool b) = b"
| "truthy (JNum n) = (n \<noteq> 0)"
| "truthy JNaN = False"
| "truthy (JStr s) = (s \<noteq> [])"
| "truthy JObject = True"

text \<open>
  The relational operators on two values that are both numbers; with \<open>undefined\<close> or
  NaN on either side JavaScript's \<^verbatim>\<open><\<close> and \<^verbatim>\<open><=\<close> are false. Values of other
  types on either side are not compared here.
\<close>

fun js_less :: "jsval \<Rightarrow> jsval \<Rightarrow> bool" where
  "js_less (JNum a) (JNum b) = (a < b)"
| "js_less _ _ = False"

fun js_less_eq :: "jsval \<Rightarrow> jsval \<Rightarrow> bool" where
  "js_less_eq (JNum a) (JNum b) = (a \<le> b)"
| "js_less_eq _ _ = False"

text \<open>
  The settings object \<^verbatim>\<open>$.read(SETTINGS_KEY)\<close>: the two properties the handler
  touches, and all the others. A property that is absent reads as \<open>JUndefined\<close>.
\<close>

record settings =
  gistToken :: jsval
  syncTime :: jsval
  others :: "(string \<times> jsval) list"

type_synonym content = string

subsection \<open>Thrown values and responses\<close>

text \<open>
  What a \<^verbatim>\<open>catch (err)\<close> can receive. \<open>PlainError name msg\<close> is an instance of
  \<^verbatim>\<open>Error\<close> that has no enumerable property of its own, only its name and its
  message, as the \<^verbatim>\<open>SyntaxError\<close> of \<^verbatim>\<open>JSON.parse\<close> or an \<^verbatim>\<open>Error\<close> made with
  \<^verbatim>\<open>new Error(msg)\<close>. Every other value, an \<^verbatim>\<open>Error\<close> that carries enumerable
  properties of its own included, is \<open>Value txt\<close>, where \<open>txt\<close> is the text that
  \<^verbatim>\<open>JSON.stringify\<close> gives for the value inside a template literal.
\<close>

datatype thrown =
    PlainError string string
  | Value string

text \<open>
  \<^verbatim>\<open>${JSON.stringify(err)}\<close>. The properties \<^verbatim>\<open>message\<close> and \<^verbatim>\<open>stack\<close> of an
  \<^verbatim>\<open>Error\<close> are not enumerable, so an \<^verbatim>\<open>Error\<close> with no enumerable property of
  its own is serialised as an empty object.
\<close>

fun JSON_stringify_err :: "thrown \<Rightarrow> string" where
  "JSON_stringify_err (PlainError name msg) = ''{}''"
| "JSON_stringify_err (Value txt) = txt"

text \<open>
  \<^verbatim>\<open>${err}\<close> for an \<^verbatim>\<open>Error\<close> with the given name and message, which is
  \<^verbatim>\<open>Error.prototype.toString\<close>: the conversion that the sibling handler
  \<^verbatim>\<open>getNodeInfo\<close> uses for its own reason string (line 218).
\<close>

definition Error_toString :: "string \<Rightarrow> string \<Rightarrow> string" where
  "Error_toString name msg =
     (if name = [] then msg else if msg = [] then name else name @ '': '' @ msg)"

text \<open>
  The error classes of \<^verbatim>\<open>@/restful/errors\<close> that the handler constructs, with the
  arguments it passes: a code, a message and, for the second, the details.
\<close>

datatype api_error =
    RequestInvalidError string string
  | InternalServerError string string string

fun error_code :: "api_error \<Rightarrow> string" where
  "error_code (RequestInvalidError c m) = c"
| "error_code (InternalServerError c m d) = c"

fun error_message :: "api_error \<Rightarrow> string" where
  "error_message (RequestInvalidError c m) = m"
| "error_message (InternalServerError c m d) = m"

fun error_details :: "api_error \<Rightarrow> string option" where
  "error_details (RequestInvalidError c m) = None"
| "error_details (InternalServerError c m d) = Some d"

text \<open>\<^verbatim>\<open>success(res)\<close> and \<^verbatim>\<open>failed(res, error)\<close>.\<close>

datatype response = Success | Failed api_error

fun is_failed :: "response \<Rightarrow> bool" where
  "is_failed Success = False"
| "is_failed (Failed e) = True"

subsection \<open>The world: local store, remote store, trace\<close>

text \<open>
  One event for each call the handler makes on a collaborator: the store \<^verbatim>\<open>$\<close>
  (\<open>ReadSettings\<close> is \<^verbatim>\<open>$.read(SETTINGS_KEY)\<close>, \<open>ReadAll\<close> is
  \<^verbatim>\<open>$.read('#sub-store')\<close>, and so on), its logger, the gist client and the migration.
\<close>

datatype event =
    ReadSettings
  | WriteSettings settings
  | ReadAll
  | WriteAll content
  | GetCache
  | SetCache
  | PersistCache
  | Info
  | GistUpload string "(string \<times> content) list"
  | GistDownload string string
  | Migrate

fun is_write :: "event \<Rightarrow> bool" where
  "is_write (WriteSettings s) = True"
| "is_write (WriteAll c) = True"
| "is_write SetCache = True"
| "is_write PersistCache = True"
| "is_write Migrate = True"
| "is_write _ = False"

fun is_network :: "event \<Rightarrow> bool" where
  "is_network (GistUpload k fs) = True"
| "is_network (GistDownload k n) = True"
| "is_network _ = False"

fun is_store_call :: "event \<Rightarrow> bool" where
  "is_store_call ReadSettings = True"
| "is_store_call (WriteSettings s) = True"
| "is_store_call ReadAll = True"
| "is_store_call (WriteAll c) = True"
| "is_store_call GetCache = True"
| "is_store_call SetCache = True"
| "is_store_call PersistCache = True"
| "is_store_call _ = False"

text \<open>
  The remote store: the content of each file of each backup document, keyed by the
  backup key of the document and the name of the file.
\<close>

type_synonym remote_store = "((string \<times> string) \<times> content) list"

record 'st world =
  app :: 'st
  remote :: remote_store
  trace :: "event list"

text \<open>
  What the handler is linked against and what the environment answers during one
  invocation. The modules \<^verbatim>\<open>@/core/app\<close>, \<^verbatim>\<open>@/utils/migration\<close> and
  \<^verbatim>\<open>@/constants\<close> are other modules of the backend, so the store operations behind
  \<^verbatim>\<open>$\<close>, the migration and the constants are parameters; \<open>'st\<close> is the state behind
  \<^verbatim>\<open>$\<close> and \<open>'c\<close> the type of \<^verbatim>\<open>$.cache\<close>. The store operations and
  \<^verbatim>\<open>JSON.stringify\<close> of the cache do not throw; \<^verbatim>\<open>JSON.parse\<close> throws a
  \<^verbatim>\<open>SyntaxError\<close> where \<open>parse\<close> is \<open>None\<close>. The migration returns the store
  as it leaves it and, when it throws, what it throws.
\<close>

record ('st, 'c) deps =
  isNode :: bool
  readSettings :: "'st \<Rightarrow> settings"
  writeSettings :: "settings \<Rightarrow> 'st \<Rightarrow> 'st"
  readAll :: "'st \<Rightarrow> content"
  writeAll :: "content \<Rightarrow> 'st \<Rightarrow> 'st"
  getCache :: "'st \<Rightarrow> 'c"
  setCache :: "'c \<Rightarrow> 'st \<Rightarrow> 'st"
  persistCache :: "'st \<Rightarrow> 'st"
  stringify :: "'c \<Rightarrow> content"
  parse :: "content \<Rightarrow> 'c option"
  now :: int
  migrate :: "'st \<Rightarrow> thrown option \<times> 'st"
  upload_fault :: "thrown option"
  download_fault :: "thrown option"
  not_found :: thrown
  GIST_BACKUP_KEY :: string
  GIST_BACKUP_FILE_NAME :: string

subsection \<open>Calls on the collaborators\<close>

definition log :: "event \<Rightarrow> 'st world \<Rightarrow> 'st world" where
  "log e w = w\<lparr>trace := trace w @ [e]\<rparr>"

definition read_settings :: "('st, 'c) deps \<Rightarrow> 'st world \<Rightarrow> settings \<times> 'st world" where
  "read_settings d w = (readSettings d (app w), log ReadSettings w)"

definition write_settings :: "('st, 'c) deps \<Rightarrow> settings \<Rightarrow> 'st world \<Rightarrow> 'st world" where
  "write_settings d s w = log (WriteSettings s) (w\<lparr>app := writeSettings d s (app w)\<rparr>)"

definition read_all :: "('st, 'c) deps \<Rightarrow> 'st world \<Rightarrow> content \<times> 'st world" where
  "read_all d w = (readAll d (app w), log ReadAll w)"

definition write_all :: "('st, 'c) deps \<Rightarrow> content \<Rightarrow> 'st world \<Rightarrow> 'st world" where
  "write_all d c w = log (WriteAll c) (w\<lparr>app := writeAll d c (app w)\<rparr>)"

definition get_cache :: "('st, 'c) deps \<Rightarrow> 'st world \<Rightarrow> 'c \<times> 'st world" where
  "get_cache d w = (getCache d (app w), log GetCache w)"

definition set_cache :: "('st, 'c) deps \<Rightarrow> 'c \<Rightarrow> 'st world \<Rightarrow> 'st world" where
  "set_cache d c w = log SetCache (w\<lparr>app := setCache d c (app w)\<rparr>)"

definition persist_cache :: "('st, 'c) deps \<Rightarrow> 'st world \<Rightarrow> 'st world" where
  "persist_cache d w = log PersistCache (w\<lparr>app := persistCache d (app w)\<rparr>)"

definition info :: "'st world \<Rightarrow> 'st world" where
  "info w = log Info w"

definition run_migrate :: "('st, 'c) deps \<Rightarrow> 'st world \<Rightarrow> thrown option \<times> 'st world" where
  "run_migrate d w =
     (case migrate d (app w) of (r, st) \<Rightarrow> (r, log Migrate (w\<lparr>app := st\<rparr>)))"

text \<open>
  \<^verbatim>\<open>JSON.parse(content)\<close>: the value, or the \<^verbatim>\<open>SyntaxError\<close> it throws. The
  message of the error depends on the engine; nothing below reads it.
\<close>

definition JSON_parse :: "('st, 'c) deps \<Rightarrow> content \<Rightarrow> thrown + 'c" where
  "JSON_parse d c =
     (case parse d c of
        None \<Rightarrow> Inl (PlainError ''SyntaxError'' ''Unexpected token'')
      | Some v \<Rightarrow> Inr v)"

text \<open>
  Modelled from the spec: the remote backup client (\<^verbatim>\<open>@/utils/gist\<close>, class
  \<^verbatim>\<open>Gist\<close>), another module of the backend. The spec gives its contract:
  \<^verbatim>\<open>upload(name, content)\<close> succeeds or fails with a network error,
  \<^verbatim>\<open>download(name)\<close> gives the content or fails with a network error, the content
  is consumed unmodified on upload and produced unmodified on download, and a document
  is keyed by the backup key and a file name. Whether the network fails is the
  environment's answer (\<open>upload_fault\<close>, \<open>download_fault\<close>); a download of a file
  that the store does not hold fails with \<open>not_found\<close>. A failed call leaves the
  remote store as it was.
\<close>

record gist_client =
  token :: jsval
  key :: string

definition remote_upload ::
  "('st, 'c) deps \<Rightarrow> string \<Rightarrow> (string \<times> content) list \<Rightarrow> remote_store \<Rightarrow> thrown + remote_store"
where
  "remote_upload d k files r =
     (case upload_fault d of
        Some err \<Rightarrow> Inl err
      | None \<Rightarrow> Inr (fold (\<lambda>(name, c). AList.update (k, name) c) files r))"

definition remote_download ::
  "('st, 'c) deps \<Rightarrow> string \<Rightarrow> string \<Rightarrow> remote_store \<Rightarrow> thrown + content"
where
  "remote_download d k name r =
     (case download_fault d of
        Some err \<Rightarrow> Inl err
      | None \<Rightarrow>
          (case map_of r (k, name) of
             None \<Rightarrow> Inl (not_found d)
           | Some c \<Rightarrow> Inr c))"

text \<open>
  \<^verbatim>\<open>await gist.upload(files)\<close> and \<^verbatim>\<open>await gist.download(name)\<close>: the call is
  recorded, then the remote store answers.
\<close>

definition gist_upload ::
  "('st, 'c) deps \<Rightarrow> gist_client \<Rightarrow> (string \<times> content) list \<Rightarrow> 'st world \<Rightarrow> thrown option \<times> 'st world"
where
  "gist_upload d gist files w =
     (let w' = log (GistUpload (key gist) files) w
      in case remote_upload d (key gist) files (remote w') of
           Inl err \<Rightarrow> (Some err, w')
         | Inr r \<Rightarrow> (None, w'\<lparr>remote := r\<rparr>))"

definition gist_download ::
  "('st, 'c) deps \<Rightarrow> gist_client \<Rightarrow> string \<Rightarrow> 'st world \<Rightarrow> (thrown + content) \<times> 'st world"
where
  "gist_download d gist name w =
     (let w' = log (GistDownload (key gist) name) w
      in (remote_download d (key gist) name (remote w'), w'))"

subsection \<open>The handler\<close>

text \<open>The \<^verbatim>\<open>case 'upload'\<close> branch, lines 129 to 147.\<close>

definition upload_case ::
  "('st, 'c) deps \<Rightarrow> gist_client \<Rightarrow> settings \<Rightarrow> jsval \<Rightarrow> 'st world \<Rightarrow> thrown option \<times> 'st world"
where
  "upload_case d gist settings updated w =
     (let settings1 = settings\<lparr>syncTime := JNum (now d)\<rparr>;
          w1 = write_settings d settings1 w;
          (content0, w2) = read_all d w1;
          (content, w3) =
             (if isNode d
              then (case get_cache d w2 of (c, w') \<Rightarrow> (stringify d c, w'))
              else (content0, w2));
          w4 = info w3
      in case gist_upload d gist [(GIST_BACKUP_FILE_NAME d, content)] w4 of
           (None, w5) \<Rightarrow> (None, w5)
         | (Some err, w5) \<Rightarrow>
             (let settings2 = settings1\<lparr>syncTime := updated\<rparr>;
                  w6 = write_settings d settings2 w5
              in (Some err, w6)))"

text \<open>The \<^verbatim>\<open>case 'download'\<close> branch, lines 148 to 160.\<close>

definition download_case ::
  "('st, 'c) deps \<Rightarrow> gist_client \<Rightarrow> 'st world \<Rightarrow> thrown option \<times> 'st world"
where
  "download_case d gist w =
     (let w1 = info w
      in case gist_download d gist (GIST_BACKUP_FILE_NAME d) w1 of
           (Inl err, w2) \<Rightarrow> (Some err, w2)
         | (Inr content, w2) \<Rightarrow>
             (let w3 = write_all d content w2
              in if isNode d
                 then (case JSON_parse d content of
                         Inl err \<Rightarrow> (Some err, w3)
                       | Inr c \<Rightarrow> run_migrate d (persist_cache d (set_cache d c w3)))
                 else run_migrate d w3))"

text \<open>
  The body of the outer \<^verbatim>\<open>try\<close>, lines 125 to 161: the result is what it throws, if
  it throws. The \<^verbatim>\<open>switch\<close> compares with \<^verbatim>\<open>===\<close>, and has no default branch.
\<close>

definition try_body ::
  "('st, 'c) deps \<Rightarrow> gist_client \<Rightarrow> string option \<Rightarrow> 'st world \<Rightarrow> thrown option \<times> 'st world"
where
  "try_body d gist action w =
     (let (settings, w1) = read_settings d w;
          updated = syncTime settings
      in if action = Some ''upload'' then upload_case d gist settings updated w1
         else if action = Some ''download'' then download_case d gist w1
         else (None, w1))"

text \<open>\<^verbatim>\<open>${action}\<close>: a query parameter that is absent is \<^verbatim>\<open>undefined\<close>.\<close>

fun action_text :: "string option \<Rightarrow> string" where
  "action_text None = ''undefined''"
| "action_text (Some a) = a"

definition token_not_found :: api_error where
  "token_not_found =
     RequestInvalidError ''GIST_TOKEN_NOT_FOUND'' ''GitHub Token is required for backup!''"

definition backup_failed :: "string option \<Rightarrow> thrown \<Rightarrow> api_error" where
  "backup_failed action err =
     InternalServerError ''BACKUP_FAILED''
       (''Failed to '' @ action_text action @ '' data to gist!'')
       (''Reason: '' @ JSON_stringify_err err)"

text \<open>
  \<^verbatim>\<open>gistBackup(req, res)\<close>, lines 107 to 174; \<open>action\<close> is \<^verbatim>\<open>req.query.action\<close>,
  a string or absent. The settings are read a first time for the token (line 110) and a
  second time inside the \<^verbatim>\<open>try\<close> (line 126).
\<close>

definition gistBackup ::
  "('st, 'c) deps \<Rightarrow> string option \<Rightarrow> 'st world \<Rightarrow> response \<times> 'st world"
where
  "gistBackup d action w =
     (let (settings0, w1) = read_settings d w;
          gistToken = gistToken settings0
      in if \<not> truthy gistToken then (Failed token_not_found, w1)
         else
           (let gist = \<lparr>token = gistToken, key = GIST_BACKUP_KEY d\<rparr>
            in case try_body d gist action w1 of
                 (None, w2) \<Rightarrow> (Success, w2)
               | (Some err, w2) \<Rightarrow> (Failed (backup_failed action err), w2)))"

text \<open>The events of one invocation: what it appends to the trace.\<close>

definition events :: "('st, 'c) deps \<Rightarrow> string option \<Rightarrow> 'st world \<Rightarrow> event list" where
  "events d action w = drop (length (trace w)) (trace (snd (gistBackup d action w)))"

subsection \<open>Notions used in the statements\<close>

text \<open>
  The backup blob the upload branch sends for a store in state \<open>st\<close>: the document
  \<^verbatim>\<open>$.read('#sub-store')\<close>, or on Node the serialised cache (lines 133 to 135).
\<close>

definition local_blob :: "('st, 'c) deps \<Rightarrow> 'st \<Rightarrow> content" where
  "local_blob d st = (if isNode d then stringify d (getCache d st) else readAll d st)"

text \<open>
  The store after the download branch has overwritten it with \<open>content\<close>, whose
  parsed form is \<open>c\<close> (lines 152 to 157).
\<close>

definition overwrite :: "('st, 'c) deps \<Rightarrow> content \<Rightarrow> 'c \<Rightarrow> 'st \<Rightarrow> 'st" where
  "overwrite d content c st =
     (if isNode d then persistCache d (setCache d c (writeAll d content st))
      else writeAll d content st)"

text \<open>The settings with the optimistic timestamp of line 131.\<close>

definition stamped :: "('st, 'c) deps \<Rightarrow> 'st \<Rightarrow> settings" where
  "stamped d st = (readSettings d st)\<lparr>syncTime := JNum (now d)\<rparr>"

text \<open>
  The world in which line 138 calls \<^verbatim>\<open>gist.upload\<close>: the store after the write of
  the stamped settings at line 132, and the calls of lines 110 to 136 on the trace.
\<close>

definition world_at_upload :: "('st, 'c) deps \<Rightarrow> 'st world \<Rightarrow> 'st world" where
  "world_at_upload d w =
     w\<lparr>app := writeSettings d (stamped d (app w)) (app w),
       trace := trace w @
         [ReadSettings, ReadSettings, WriteSettings (stamped d (app w)), ReadAll] @
         (if isNode d then [GetCache] else []) @ [Info]\<rparr>"

text \<open>
  What the handler makes of the result of \<^verbatim>\<open>gist.upload\<close>: success, or the rollback
  of lines 142 to 145 and the failure of lines 164 to 171.
\<close>

definition upload_outcome ::
  "('st, 'c) deps \<Rightarrow> 'st world \<Rightarrow> thrown option \<times> 'st world \<Rightarrow> response \<times> 'st world"
where
  "upload_outcome d w r =
     (case r of
        (None, w5) \<Rightarrow> (Success, w5)
      | (Some err, w5) \<Rightarrow>
          (Failed (backup_failed (Some ''upload'') err),
           write_settings d (readSettings d (app w)) w5))"

text \<open>
  The contract of the store that the statements about \<^verbatim>\<open>Settings.syncTime\<close> rely on:
  settings that were written are the settings that are read back.
\<close>

definition settings_persist :: "('st, 'c) deps \<Rightarrow> bool" where
  "settings_persist d \<longleftrightarrow> (\<forall>s st. readSettings d (writeSettings d s st) = s)"

subsection \<open>A store and an environment for the examples\<close>

text \<open>
  The text that \<^verbatim>\<open>JSON.stringify\<close> gives for a string none of whose characters
  needs an escape: the string between double quotes.
\<close>

definition quoted :: "string \<Rightarrow> string" where
  "quoted s = CHR 0x22 # s @ [CHR 0x22]"

text \<open>
  Modelled from the spec: the local state store behind \<^verbatim>\<open>$\<close> (\<^verbatim>\<open>@/core/app\<close>,
  another module of the backend), with the operations the spec lists for it:
  \<^verbatim>\<open>readSettings\<close>, \<^verbatim>\<open>writeSettings\<close>, \<^verbatim>\<open>readAll\<close>, \<^verbatim>\<open>writeAll\<close>, each
  atomic, and the in-memory cache of the Node variant. The settings record, the
  document and the cache are kept as three slots. The cache is the empty object, the
  only text that \<open>parse\<close> accepts is its serialisation, and every text that is used
  below and not accepted is indeed not JSON. The migration finds nothing to migrate.
\<close>

record 'c local_store =
  ls_settings :: settings
  ls_document :: content
  ls_cache :: 'c

datatype json = EmptyObject

definition store_deps ::
  "bool \<Rightarrow> int \<Rightarrow> thrown option \<Rightarrow> thrown option \<Rightarrow> (json local_store, json) deps"
where
  "store_deps node t up down =
     \<lparr>isNode = node,
      readSettings = ls_settings,
      writeSettings = (\<lambda>s st. st\<lparr>ls_settings := s\<rparr>),
      readAll = ls_document,
      writeAll = (\<lambda>c st. st\<lparr>ls_document := c\<rparr>),
      getCache = ls_cache,
      setCache = (\<lambda>c st. st\<lparr>ls_cache := c\<rparr>),
      persistCache = (\<lambda>st. st),
      stringify = (\<lambda>c. ''{}''),
      parse = (\<lambda>c. if c = ''{}'' then Some EmptyObject else None),
      now = t,
      migrate = (\<lambda>st. (None, st)),
      upload_fault = up,
      download_fault = down,
      not_found = Value (quoted ''not found''),
      GIST_BACKUP_KEY = ''backup'',
      GIST_BACKUP_FILE_NAME = ''Sub-Store''\<rparr>"

text \<open>A world with the given token and timestamp in the settings, and the given remote store.\<close>

definition world0 :: "jsval \<Rightarrow> jsval \<Rightarrow> remote_store \<Rightarrow> json local_store world" where
  "world0 tok t r =
     \<lparr>app = \<lparr>ls_settings = \<lparr>gistToken = tok, syncTime = t, others = []\<rparr>,
             ls_document = ''{}'', ls_cache = EmptyObject\<rparr>,
      remote = r, trace = []\<rparr>"

section \<open>The outcome of each path through the handler\<close>

lemmas handler_defs = gistBackup_def try_body_def upload_case_def download_case_def
  read_settings_def write_settings_def read_all_def write_all_def get_cache_def
  set_cache_def persist_cache_def info_def run_migrate_def JSON_parse_def
  gist_upload_def gist_download_def log_def

lemma no_token_result:
  assumes "\<not> truthy (gistToken (readSettings d (app w)))"
  shows "gistBackup d action w = (Failed token_not_found, w\<lparr>trace := trace w @ [ReadSettings]\<rparr>)"
  using assms by (simp add: handler_defs)

lemma unknown_action_result:
  assumes "truthy (gistToken (readSettings d (app w)))"
    and "action \<noteq> Some ''upload''" and "action \<noteq> Some ''download''"
  shows "gistBackup d action w = (Success, w\<lparr>trace := trace w @ [ReadSettings, ReadSettings]\<rparr>)"
  using assms by (simp add: handler_defs)

lemma upload_fail_result:
  assumes "truthy (gistToken (readSettings d (app w)))" and "upload_fault d = Some err"
  shows "gistBackup d (Some ''upload'') w =
    (Failed (backup_failed (Some ''upload'') err),
     w\<lparr>app := writeSettings d (readSettings d (app w)) (writeSettings d (stamped d (app w)) (app w)),
       trace := trace w @
         [ReadSettings, ReadSettings, WriteSettings (stamped d (app w)), ReadAll] @
         (if isNode d then [GetCache] else []) @
         [Info,
          GistUpload (GIST_BACKUP_KEY d)
            [(GIST_BACKUP_FILE_NAME d, local_blob d (writeSettings d (stamped d (app w)) (app w)))],
          WriteSettings (readSettings d (app w))]\<rparr>)"
  using assms
  by (simp add: handler_defs remote_upload_def stamped_def local_blob_def Let_def)

lemma upload_ok_result:
  assumes "truthy (gistToken (readSettings d (app w)))" and "upload_fault d = None"
  shows "gistBackup d (Some ''upload'') w =
    (Success,
     w\<lparr>app := writeSettings d (stamped d (app w)) (app w),
       remote := AList.update (GIST_BACKUP_KEY d, GIST_BACKUP_FILE_NAME d)
                   (local_blob d (writeSettings d (stamped d (app w)) (app w))) (remote w),
       trace := trace w @
         [ReadSettings, ReadSettings, WriteSettings (stamped d (app w)), ReadAll] @
         (if isNode d then [GetCache] else []) @
         [Info,
          GistUpload (GIST_BACKUP_KEY d)
            [(GIST_BACKUP_FILE_NAME d, local_blob d (writeSettings d (stamped d (app w)) (app w)))]]\<rparr>)"
  using assms
  by (simp add: handler_defs remote_upload_def stamped_def local_blob_def Let_def)

lemma download_fail_result:
  assumes "truthy (gistToken (readSettings d (app w)))"
    and "remote_download d (GIST_BACKUP_KEY d) (GIST_BACKUP_FILE_NAME d) (remote w) = Inl err"
  shows "gistBackup d (Some ''download'') w =
    (Failed (backup_failed (Some ''download'') err),
     w\<lparr>trace := trace w @
         [ReadSettings, ReadSettings, Info,
          GistDownload (GIST_BACKUP_KEY d) (GIST_BACKUP_FILE_NAME d)]\<rparr>)"
  using assms by (simp add: handler_defs Let_def)

lemma download_unparsed_result:
  assumes "truthy (gistToken (readSettings d (app w)))"
    and "remote_download d (GIST_BACKUP_KEY d) (GIST_BACKUP_FILE_NAME d) (remote w) = Inr content"
    and "isNode d" and "parse d content = None"
  shows "gistBackup d (Some ''download'') w =
    (Failed (backup_failed (Some ''download'') (PlainError ''SyntaxError'' ''Unexpected token'')),
     w\<lparr>app := writeAll d content (app w),
       trace := trace w @
         [ReadSettings, ReadSettings, Info,
          GistDownload (GIST_BACKUP_KEY d) (GIST_BACKUP_FILE_NAME d), WriteAll content]\<rparr>)"
  using assms by (simp add: handler_defs Let_def)

lemma download_restored_result:
  assumes "truthy (gistToken (readSettings d (app w)))"
    and "remote_download d (GIST_BACKUP_KEY d) (GIST_BACKUP_FILE_NAME d) (remote w) = Inr content"
    and "isNode d \<longrightarrow> parse d content = Some c"
  shows "gistBackup d (Some ''download'') w =
    ((case fst (migrate d (overwrite d content c (app w))) of
        None \<Rightarrow> Success
      | Some err \<Rightarrow> Failed (backup_failed (Some ''download'') err)),
     w\<lparr>app := snd (migrate d (overwrite d content c (app w))),
       trace := trace w @
         [ReadSettings, ReadSettings, Info,
          GistDownload (GIST_BACKUP_KEY d) (GIST_BACKUP_FILE_NAME d), WriteAll content] @
         (if isNode d then [SetCache, PersistCache] else []) @ [Migrate]\<rparr>)"
  using assms
  by (cases "isNode d")
     (auto simp: handler_defs overwrite_def Let_def split: prod.splits option.splits)

lemma events_of_trace:
  assumes "trace (snd (gistBackup d action w)) = trace w @ evs"
  shows "events d action w = evs"
  using assms by (simp add: events_def)

lemma no_token_events:
  "\<not> truthy (gistToken (readSettings d (app w))) \<Longrightarrow> events d action w = [ReadSettings]"
  by (rule events_of_trace) (simp add: no_token_result)

lemma unknown_action_events:
  "truthy (gistToken (readSettings d (app w))) \<Longrightarrow> action \<noteq> Some ''upload'' \<Longrightarrow>
   action \<noteq> Some ''download'' \<Longrightarrow> events d action w = [ReadSettings, ReadSettings]"
  by (rule events_of_trace) (simp add: unknown_action_result)

lemma upload_fail_events:
  "truthy (gistToken (readSettings d (app w))) \<Longrightarrow> upload_fault d = Some err \<Longrightarrow>
   events d (Some ''upload'') w =
     [ReadSettings, ReadSettings, WriteSettings (stamped d (app w)), ReadAll] @
     (if isNode d then [GetCache] else []) @
     [Info,
      GistUpload (GIST_BACKUP_KEY d)
        [(GIST_BACKUP_FILE_NAME d, local_blob d (writeSettings d (stamped d (app w)) (app w)))],
      WriteSettings (readSettings d (app w))]"
  by (rule events_of_trace) (simp add: upload_fail_result)

lemma upload_ok_events:
  "truthy (gistToken (readSettings d (app w))) \<Longrightarrow> upload_fault d = None \<Longrightarrow>
   events d (Some ''upload'') w =
     [ReadSettings, ReadSettings, WriteSettings (stamped d (app w)), ReadAll] @
     (if isNode d then [GetCache] else []) @
     [Info,
      GistUpload (GIST_BACKUP_KEY d)
        [(GIST_BACKUP_FILE_NAME d, local_blob d (writeSettings d (stamped d (app w)) (app w)))]]"
  by (rule events_of_trace) (simp add: upload_ok_result)

lemma download_fail_events:
  "truthy (gistToken (readSettings d (app w))) \<Longrightarrow>
   remote_download d (GIST_BACKUP_KEY d) (GIST_BACKUP_FILE_NAME d) (remote w) = Inl err \<Longrightarrow>
   events d (Some ''download'') w =
     [ReadSettings, ReadSettings, Info,
      GistDownload (GIST_BACKUP_KEY d) (GIST_BACKUP_FILE_NAME d)]"
  by (rule events_of_trace) (simp add: download_fail_result)

lemma download_unparsed_events:
  "truthy (gistToken (readSettings d (app w))) \<Longrightarrow>
   remote_download d (GIST_BACKUP_KEY d) (GIST_BACKUP_FILE_NAME d) (remote w) = Inr content \<Longrightarrow>
   isNode d \<Longrightarrow> parse d content = None \<Longrightarrow>
   events d (Some ''download'') w =
     [ReadSettings, ReadSettings, Info,
      GistDownload (GIST_BACKUP_KEY d) (GIST_BACKUP_FILE_NAME d), WriteAll content]"
  by (rule events_of_trace) (simp add: download_unparsed_result)

lemma download_restored_events:
  "truthy (gistToken (readSettings d (app w))) \<Longrightarrow>
   remote_download d (GIST_BACKUP_KEY d) (GIST_BACKUP_FILE_NAME d) (remote w) = Inr content \<Longrightarrow>
   isNode d \<longrightarrow> parse d content = Some c \<Longrightarrow>
   events d (Some ''download'') w =
     [ReadSettings, ReadSettings, Info,
      GistDownload (GIST_BACKUP_KEY d) (GIST_BACKUP_FILE_NAME d), WriteAll content] @
     (if isNode d then [SetCache, PersistCache] else []) @ [Migrate]"
  by (rule events_of_trace) (simp add: download_restored_result)

lemma store_deps_persist: "settings_persist (store_deps node t up down)"
  by (simp add: settings_persist_def store_deps_def)

lemma remote_download_after_update:
  assumes "download_fault d = None"
  shows "remote_download d k n (AList.update (k, n) c r) = Inr c"
  using assms by (simp add: remote_download_def update_conv')

lemma upload_success_world:
  assumes "gistBackup d (Some ''upload'') w = (Success, w1)"
  shows "app w1 = writeSettings d (stamped d (app w)) (app w) \<and>
         remote w1 = AList.update (GIST_BACKUP_KEY d, GIST_BACKUP_FILE_NAME d)
                       (local_blob d (app w1)) (remote w)"
proof -
  have t: "truthy (gistToken (readSettings d (app w)))"
  proof (rule ccontr)
    assume "\<not> truthy (gistToken (readSettings d (app w)))"
    from no_token_result [OF this, of "Some ''upload''"] assms show False by simp
  qed
  have f: "upload_fault d = None"
  proof (cases "upload_fault d")
    case (Some err)
    with t assms show ?thesis by (simp add: upload_fail_result)
  qed simp
  from assms show ?thesis
    unfolding upload_ok_result [OF t f] by auto
qed

section \<open>The claims\<close>

text \<open>
  C1. When the remote upload call fails, the attempt reports failure (with the code
  \<open>BACKUP_FAILED\<close>), and the settings read back from the store afterwards, the
  timestamp \<open>syncTime\<close> among them, are the settings of before the attempt: the
  timestamp written before the network call does not stay. This holds for every store
  that reads back the settings that were written.
\<close>

theorem upload_failure_rolls_back:
  assumes "settings_persist d"
    and "truthy (gistToken (readSettings d (app w)))"
    and "upload_fault d = Some err"
  shows "fst (gistBackup d (Some ''upload'') w) = Failed (backup_failed (Some ''upload'') err) \<and>
         is_failed (fst (gistBackup d (Some ''upload'') w)) \<and>
         readSettings d (app (snd (gistBackup d (Some ''upload'') w))) = readSettings d (app w) \<and>
         syncTime (readSettings d (app (snd (gistBackup d (Some ''upload'') w))))
           = syncTime (readSettings d (app w))"
  using assms by (simp add: upload_fail_result settings_persist_def)

theorem upload_failure_rolls_back_witness:
  "settings_persist (store_deps False 5000 (Some (Value (quoted ''timeout''))) None) \<and>
   truthy (gistToken (readSettings (store_deps False 5000 (Some (Value (quoted ''timeout''))) None)
                        (app (world0 (JStr ''ghp'') (JNum 1000) [])))) \<and>
   upload_fault (store_deps False 5000 (Some (Value (quoted ''timeout''))) None) = Some (Value (quoted ''timeout'')) \<and>
   is_failed (fst (gistBackup (store_deps False 5000 (Some (Value (quoted ''timeout''))) None) (Some ''upload'')
                     (world0 (JStr ''ghp'') (JNum 1000) []))) \<and>
   syncTime (readSettings (store_deps False 5000 (Some (Value (quoted ''timeout''))) None)
      (app (snd (gistBackup (store_deps False 5000 (Some (Value (quoted ''timeout''))) None) (Some ''upload'')
                   (world0 (JStr ''ghp'') (JNum 1000) []))))) = JNum 1000"
proof -
  let ?d = "store_deps False 5000 (Some (Value (quoted ''timeout''))) None"
  let ?w = "world0 (JStr ''ghp'') (JNum 1000) []"
  have h1: "settings_persist ?d" by (rule store_deps_persist)
  have h2: "truthy (gistToken (readSettings ?d (app ?w)))"
    by (simp add: store_deps_def world0_def)
  have h3: "upload_fault ?d = Some (Value (quoted ''timeout''))" by (simp add: store_deps_def)
  have h4: "syncTime (readSettings ?d (app ?w)) = JNum 1000"
    by (simp add: store_deps_def world0_def)
  show ?thesis using upload_failure_rolls_back [OF h1 h2 h3] h1 h2 h3 h4 by simp
qed

text \<open>
  C2 as stated, that after a successful upload \<open>syncTime\<close> is strictly greater than
  before, fails: the handler stores the reading of the clock and compares it with
  nothing. With a stored timestamp of 2000 (restored from a backup made by a machine
  whose clock is ahead, say) and a clock that reads 1000, the upload succeeds and the
  timestamp goes from 2000 down to 1000.
\<close>

theorem upload_success_counterexample:
  "fst (gistBackup (store_deps False 1000 None None) (Some ''upload'')
          (world0 (JStr ''ghp'') (JNum 2000) [])) = Success \<and>
   syncTime (readSettings (store_deps False 1000 None None)
      (app (world0 (JStr ''ghp'') (JNum 2000) []))) = JNum 2000 \<and>
   syncTime (readSettings (store_deps False 1000 None None)
      (app (snd (gistBackup (store_deps False 1000 None None) (Some ''upload'')
                   (world0 (JStr ''ghp'') (JNum 2000) []))))) = JNum 1000 \<and>
   \<not> js_less
      (syncTime (readSettings (store_deps False 1000 None None)
         (app (world0 (JStr ''ghp'') (JNum 2000) []))))
      (syncTime (readSettings (store_deps False 1000 None None)
         (app (snd (gistBackup (store_deps False 1000 None None) (Some ''upload'')
                      (world0 (JStr ''ghp'') (JNum 2000) []))))))"
  by (simp add: handler_defs remote_upload_def store_deps_def world0_def Let_def)

text \<open>
  C2, amended. After a successful upload \<open>syncTime\<close> is the reading of the clock
  that the attempt took. It is therefore at least any time \<open>start\<close> that is not
  later than the reading (the start of the attempt, for a clock that was not set back
  in between), and it is strictly greater than the timestamp of before the attempt
  when that one is a number below the reading.
\<close>

theorem upload_success_stamps_clock:
  assumes "settings_persist d"
    and "truthy (gistToken (readSettings d (app w)))"
    and "upload_fault d = None"
  shows "fst (gistBackup d (Some ''upload'') w) = Success \<and>
         syncTime (readSettings d (app (snd (gistBackup d (Some ''upload'') w)))) = JNum (now d) \<and>
         (start \<le> now d \<longrightarrow>
            js_less_eq (JNum start)
              (syncTime (readSettings d (app (snd (gistBackup d (Some ''upload'') w)))))) \<and>
         (js_less (syncTime (readSettings d (app w))) (JNum (now d)) \<longrightarrow>
            js_less (syncTime (readSettings d (app w)))
              (syncTime (readSettings d (app (snd (gistBackup d (Some ''upload'') w))))))"
  using assms by (simp add: upload_ok_result settings_persist_def stamped_def)

theorem upload_success_stamps_clock_witness:
  "settings_persist (store_deps True 5000 None None) \<and>
   truthy (gistToken (readSettings (store_deps True 5000 None None)
                        (app (world0 (JStr ''ghp'') (JNum 1000) [])))) \<and>
   upload_fault (store_deps True 5000 None None) = None \<and>
   (4990::int) \<le> now (store_deps True 5000 None None) \<and>
   js_less (syncTime (readSettings (store_deps True 5000 None None)
                        (app (world0 (JStr ''ghp'') (JNum 1000) []))))
           (JNum (now (store_deps True 5000 None None))) \<and>
   fst (gistBackup (store_deps True 5000 None None) (Some ''upload'')
          (world0 (JStr ''ghp'') (JNum 1000) [])) = Success \<and>
   syncTime (readSettings (store_deps True 5000 None None)
      (app (snd (gistBackup (store_deps True 5000 None None) (Some ''upload'')
                   (world0 (JStr ''ghp'') (JNum 1000) []))))) = JNum 5000 \<and>
   js_less_eq (JNum 4990)
     (syncTime (readSettings (store_deps True 5000 None None)
        (app (snd (gistBackup (store_deps True 5000 None None) (Some ''upload'')
                     (world0 (JStr ''ghp'') (JNum 1000) [])))))) \<and>
   js_less (JNum 1000)
     (syncTime (readSettings (store_deps True 5000 None None)
        (app (snd (gistBackup (store_deps True 5000 None None) (Some ''upload'')
                     (world0 (JStr ''ghp'') (JNum 1000) []))))))"
proof -
  let ?d = "store_deps True 5000 None None"
  let ?w = "world0 (JStr ''ghp'') (JNum 1000) []"
  have h1: "settings_persist ?d" by (rule store_deps_persist)
  have h2: "truthy (gistToken (readSettings ?d (app ?w)))"
    by (simp add: store_deps_def world0_def)
  have h3: "upload_fault ?d = None" by (simp add: store_deps_def)
  have h4: "now ?d = 5000" by (simp add: store_deps_def)
  have h5: "syncTime (readSettings ?d (app ?w)) = JNum 1000"
    by (simp add: store_deps_def world0_def)
  show ?thesis
    using upload_success_stamps_clock [OF h1 h2 h3, of 4990] h1 h2 h3 h4 h5 by simp
qed

text \<open>
  C3 as stated, that a successful remote download is always followed by exactly one
  migration, fails on Node: the downloaded content is written to the store and then
  parsed, and when it is not JSON the \<^verbatim>\<open>SyntaxError\<close> leaves the \<^verbatim>\<open>try\<close> before
  the migration is reached.
\<close>

theorem migration_counterexample:
  "truthy (gistToken (readSettings (store_deps True 5000 None None)
                        (app (world0 (JStr ''ghp'') (JNum 1000) [((''backup'', ''Sub-Store''), ''not json'')])))) \<and>
   remote_download (store_deps True 5000 None None) ''backup'' ''Sub-Store''
     (remote (world0 (JStr ''ghp'') (JNum 1000) [((''backup'', ''Sub-Store''), ''not json'')]))
     = Inr ''not json'' \<and>
   count_list
     (events (store_deps True 5000 None None) (Some ''download'')
        (world0 (JStr ''ghp'') (JNum 1000) [((''backup'', ''Sub-Store''), ''not json'')]))
     Migrate = 0"
  by (simp add: events_def handler_defs remote_download_def store_deps_def world0_def Let_def)

text \<open>
  C3, amended. When the remote download call succeeds and, on Node, the downloaded
  content parses, the migration is invoked exactly once, as the last call of the
  attempt and after the store was overwritten with the downloaded content. When the
  remote download call fails, the migration is not invoked.
\<close>

theorem migration_after_restore:
  assumes "truthy (gistToken (readSettings d (app w)))"
  shows "(remote_download d (GIST_BACKUP_KEY d) (GIST_BACKUP_FILE_NAME d) (remote w) = Inr content \<and>
          (isNode d \<longrightarrow> parse d content = Some c) \<longrightarrow>
            count_list (events d (Some ''download'') w) Migrate = 1 \<and>
            (\<exists>pre. events d (Some ''download'') w = pre @ [Migrate] \<and>
                   WriteAll content \<in> set pre \<and> Migrate \<notin> set pre)) \<and>
         (remote_download d (GIST_BACKUP_KEY d) (GIST_BACKUP_FILE_NAME d) (remote w) = Inl err \<longrightarrow>
            count_list (events d (Some ''download'') w) Migrate = 0)"
proof (intro conjI impI)
  assume ok: "remote_download d (GIST_BACKUP_KEY d) (GIST_BACKUP_FILE_NAME d) (remote w) = Inr content \<and>
          (isNode d \<longrightarrow> parse d content = Some c)"
  then have ev: "events d (Some ''download'') w =
     [ReadSettings, ReadSettings, Info,
      GistDownload (GIST_BACKUP_KEY d) (GIST_BACKUP_FILE_NAME d), WriteAll content] @
     (if isNode d then [SetCache, PersistCache] else []) @ [Migrate]"
    using assms by (simp add: download_restored_events)
  show "count_list (events d (Some ''download'') w) Migrate = 1"
    by (simp add: ev)
  show "\<exists>pre. events d (Some ''download'') w = pre @ [Migrate] \<and>
                   WriteAll content \<in> set pre \<and> Migrate \<notin> set pre"
  proof (intro exI conjI)
    show "events d (Some ''download'') w =
      ([ReadSettings, ReadSettings, Info,
        GistDownload (GIST_BACKUP_KEY d) (GIST_BACKUP_FILE_NAME d), WriteAll content] @
       (if isNode d then [SetCache, PersistCache] else [])) @ [Migrate]"
      by (simp add: ev)
  qed simp_all
next
  assume "remote_download d (GIST_BACKUP_KEY d) (GIST_BACKUP_FILE_NAME d) (remote w) = Inl err"
  then show "count_list (events d (Some ''download'') w) Migrate = 0"
    using assms by (simp add: download_fail_events)
qed

theorem migration_after_restore_witness:
  "truthy (gistToken (readSettings (store_deps True 5000 None None)
                        (app (world0 (JStr ''ghp'') (JNum 1000) [((''backup'', ''Sub-Store''), ''{}'')])))) \<and>
   remote_download (store_deps True 5000 None None) ''backup'' ''Sub-Store''
     (remote (world0 (JStr ''ghp'') (JNum 1000) [((''backup'', ''Sub-Store''), ''{}'')])) = Inr ''{}'' \<and>
   parse (store_deps True 5000 None None) ''{}'' = Some EmptyObject \<and>
   count_list
     (events (store_deps True 5000 None None) (Some ''download'')
        (world0 (JStr ''ghp'') (JNum 1000) [((''backup'', ''Sub-Store''), ''{}'')])) Migrate = 1 \<and>
   truthy (gistToken (readSettings (store_deps True 5000 None None)
                        (app (world0 (JStr ''ghp'') (JNum 1000) [])))) \<and>
   remote_download (store_deps True 5000 None None) ''backup'' ''Sub-Store''
     (remote (world0 (JStr ''ghp'') (JNum 1000) [])) = Inl (Value (quoted ''not found'')) \<and>
   count_list
     (events (store_deps True 5000 None None) (Some ''download'')
        (world0 (JStr ''ghp'') (JNum 1000) [])) Migrate = 0"
proof -
  let ?d = "store_deps True 5000 None None"
  let ?w = "world0 (JStr ''ghp'') (JNum 1000) [((''backup'', ''Sub-Store''), ''{}'')]"
  let ?v = "world0 (JStr ''ghp'') (JNum 1000) []"
  have k: "GIST_BACKUP_KEY ?d = ''backup''" "GIST_BACKUP_FILE_NAME ?d = ''Sub-Store''"
    by (simp_all add: store_deps_def)
  have h1: "truthy (gistToken (readSettings ?d (app ?w)))"
    by (simp add: store_deps_def world0_def)
  have h2: "remote_download ?d ''backup'' ''Sub-Store'' (remote ?w) = Inr ''{}''"
    by (simp add: remote_download_def store_deps_def world0_def)
  have h3: "parse ?d ''{}'' = Some EmptyObject" by (simp add: store_deps_def)
  have g1: "truthy (gistToken (readSettings ?d (app ?v)))"
    by (simp add: store_deps_def world0_def)
  have g2: "remote_download ?d ''backup'' ''Sub-Store'' (remote ?v) = Inl (Value (quoted ''not found''))"
    by (simp add: remote_download_def store_deps_def world0_def)
  show ?thesis
    using migration_after_restore [OF h1, of "''{}''" EmptyObject]
      migration_after_restore [OF g1, where err = "Value (quoted ''not found'')"]
      h1 h2 h3 g1 g2 k
    by simp
qed

text \<open>
  C4 as stated, that an invocation with an unknown action makes no store call of any
  kind, fails: the credential check reads the settings from the store, and the
  \<^verbatim>\<open>try\<close> block reads them a second time before the \<^verbatim>\<open>switch\<close>.
\<close>

theorem unknown_action_counterexample:
  "Some ''sync'' \<noteq> Some ''upload'' \<and> Some ''sync'' \<noteq> Some ''download'' \<and>
   truthy (gistToken (readSettings (store_deps False 5000 None None)
                        (app (world0 (JStr ''ghp'') (JNum 1000) [])))) \<and>
   filter is_store_call
     (events (store_deps False 5000 None None) (Some ''sync'')
        (world0 (JStr ''ghp'') (JNum 1000) [])) = [ReadSettings, ReadSettings]"
  by (simp add: events_def handler_defs store_deps_def world0_def)

text \<open>
  C4, amended. With a credential configured and an action other than \<open>upload\<close> and
  \<open>download\<close>, the handler answers success, leaves the local store and the remote
  store as they were, and makes exactly two calls, both reads of the settings: no
  write and no network call.
\<close>

theorem unknown_action_noop:
  assumes "truthy (gistToken (readSettings d (app w)))"
    and "action \<noteq> Some ''upload''" and "action \<noteq> Some ''download''"
  shows "fst (gistBackup d action w) = Success \<and>
         app (snd (gistBackup d action w)) = app w \<and>
         remote (snd (gistBackup d action w)) = remote w \<and>
         events d action w = [ReadSettings, ReadSettings] \<and>
         filter is_write (events d action w) = [] \<and>
         filter is_network (events d action w) = []"
  using assms by (simp add: unknown_action_result unknown_action_events)

theorem unknown_action_noop_witness:
  "truthy (gistToken (readSettings (store_deps True 5000 None None)
                        (app (world0 (JStr ''ghp'') (JNum 1000) [])))) \<and>
   Some ''sync'' \<noteq> Some ''upload'' \<and> Some ''sync'' \<noteq> Some ''download'' \<and>
   fst (gistBackup (store_deps True 5000 None None) (Some ''sync'')
          (world0 (JStr ''ghp'') (JNum 1000) [])) = Success \<and>
   snd (gistBackup (store_deps True 5000 None None) (Some ''sync'')
          (world0 (JStr ''ghp'') (JNum 1000) []))
     = (world0 (JStr ''ghp'') (JNum 1000) [])\<lparr>trace := [ReadSettings, ReadSettings]\<rparr> \<and>
   filter is_write (events (store_deps True 5000 None None) (Some ''sync'')
                      (world0 (JStr ''ghp'') (JNum 1000) [])) = []"
proof -
  let ?d = "store_deps True 5000 None None"
  let ?w = "world0 (JStr ''ghp'') (JNum 1000) []"
  have h1: "truthy (gistToken (readSettings ?d (app ?w)))"
    by (simp add: store_deps_def world0_def)
  have h2: "Some ''sync'' \<noteq> Some ''upload''" by simp
  have h3: "Some ''sync'' \<noteq> Some ''download''" by simp
  have h4: "trace ?w = []" by (simp add: world0_def)
  have "snd (gistBackup ?d (Some ''sync'') ?w) = ?w\<lparr>trace := [ReadSettings, ReadSettings]\<rparr>"
    using unknown_action_noop [OF h1 h2 h3] h4
    by (simp add: events_def world0_def)
  then show ?thesis using unknown_action_noop [OF h1 h2 h3] h1 by simp
qed

text \<open>
  C5. With no credential configured, whatever the action, the handler fails with the
  code \<open>GIST_TOKEN_NOT_FOUND\<close>, writes nothing, makes no network call, and leaves
  the store, the settings among it, and the remote store as they were.
\<close>

theorem credential_gate:
  assumes "gistToken (readSettings d (app w)) = JUndefined"
  shows "fst (gistBackup d action w) = Failed token_not_found \<and>
         error_code token_not_found = ''GIST_TOKEN_NOT_FOUND'' \<and>
         app (snd (gistBackup d action w)) = app w \<and>
         readSettings d (app (snd (gistBackup d action w))) = readSettings d (app w) \<and>
         remote (snd (gistBackup d action w)) = remote w \<and>
         filter is_write (events d action w) = [] \<and>
         filter is_network (events d action w) = []"
  using assms by (simp add: no_token_result no_token_events token_not_found_def)

theorem credential_gate_witness:
  "gistToken (readSettings (store_deps False 5000 None None)
                (app (world0 JUndefined (JNum 1000) []))) = JUndefined \<and>
   fst (gistBackup (store_deps False 5000 None None) (Some ''upload'')
          (world0 JUndefined (JNum 1000) []))
     = Failed (RequestInvalidError ''GIST_TOKEN_NOT_FOUND'' ''GitHub Token is required for backup!'') \<and>
   fst (gistBackup (store_deps False 5000 None None) (Some ''download'')
          (world0 JUndefined (JNum 1000) []))
     = Failed (RequestInvalidError ''GIST_TOKEN_NOT_FOUND'' ''GitHub Token is required for backup!'') \<and>
   readSettings (store_deps False 5000 None None)
     (app (snd (gistBackup (store_deps False 5000 None None) (Some ''upload'')
                  (world0 JUndefined (JNum 1000) []))))
     = \<lparr>gistToken = JUndefined, syncTime = JNum 1000, others = []\<rparr>"
proof -
  let ?d = "store_deps False 5000 None None"
  let ?w = "world0 JUndefined (JNum 1000) []"
  have h1: "gistToken (readSettings ?d (app ?w)) = JUndefined"
    by (simp add: store_deps_def world0_def)
  have h2: "readSettings ?d (app ?w) = \<lparr>gistToken = JUndefined, syncTime = JNum 1000, others = []\<rparr>"
    by (simp add: store_deps_def world0_def)
  show ?thesis
    using credential_gate [OF h1, of "Some ''upload''"] credential_gate [OF h1, of "Some ''download''"]
      h1 h2
    by (simp add: token_not_found_def)
qed

text \<open>
  C6. A successful upload followed by a successful download of the same document:
  the remote store gives back the blob \<open>B\<close> that the upload read from the local
  store, unchanged; the download overwrites the local store with \<open>B\<close> (on Node also
  the cache, with the parsed \<open>B\<close>); and the local store at the end is that
  overwritten store after the migration, which did not throw.
\<close>

theorem backup_round_trip:
  assumes up: "gistBackup d1 (Some ''upload'') w = (Success, w1)"
    and down: "gistBackup d2 (Some ''download'') w1 = (Success, w2)"
    and same_key: "GIST_BACKUP_KEY d2 = GIST_BACKUP_KEY d1"
    and same_name: "GIST_BACKUP_FILE_NAME d2 = GIST_BACKUP_FILE_NAME d1"
  shows "remote_download d2 (GIST_BACKUP_KEY d2) (GIST_BACKUP_FILE_NAME d2) (remote w1)
           = Inr (local_blob d1 (app w1)) \<and>
         WriteAll (local_blob d1 (app w1)) \<in> set (events d2 (Some ''download'') w1) \<and>
         (\<exists>c. (isNode d2 \<longrightarrow> parse d2 (local_blob d1 (app w1)) = Some c) \<and>
              migrate d2 (overwrite d2 (local_blob d1 (app w1)) c (app w1)) = (None, app w2))"
proof -
  let ?B = "local_blob d1 (app w1)"
  let ?k = "GIST_BACKUP_KEY d2" and ?n = "GIST_BACKUP_FILE_NAME d2"
  have r1: "remote w1 = AList.update (?k, ?n) ?B (remote w)"
    using upload_success_world [OF up] same_key same_name by simp
  have t: "truthy (gistToken (readSettings d2 (app w1)))"
  proof (rule ccontr)
    assume "\<not> truthy (gistToken (readSettings d2 (app w1)))"
    from no_token_result [OF this, of "Some ''download''"] down show False by simp
  qed
  have nf: "download_fault d2 = None"
  proof (cases "download_fault d2")
    case (Some err)
    then have "remote_download d2 ?k ?n (remote w1) = Inl err"
      by (simp add: remote_download_def)
    with t down show ?thesis by (simp add: download_fail_result)
  qed simp
  have dl: "remote_download d2 ?k ?n (remote w1) = Inr ?B"
    unfolding r1 by (rule remote_download_after_update [OF nf])
  have "\<exists>c. isNode d2 \<longrightarrow> parse d2 ?B = Some c"
  proof (cases "isNode d2 \<and> parse d2 ?B = None")
    case True
    with t dl down show ?thesis by (simp add: download_unparsed_result)
  qed auto
  then obtain c where c: "isNode d2 \<longrightarrow> parse d2 ?B = Some c" ..
  note res = download_restored_result [OF t dl c]
  have m: "migrate d2 (overwrite d2 ?B c (app w1)) = (None, app w2)"
    using down unfolding res
    by (cases "migrate d2 (overwrite d2 ?B c (app w1))") (auto split: option.splits)
  have ev: "WriteAll ?B \<in> set (events d2 (Some ''download'') w1)"
    by (simp add: download_restored_events [OF t dl c])
  from dl ev c m show ?thesis by blast
qed

theorem backup_round_trip_witness:
  "gistBackup (store_deps False 5000 None None) (Some ''upload'')
     (world0 (JStr ''ghp'') (JNum 1000) [])
   = (Success,
      \<lparr>app = \<lparr>ls_settings = \<lparr>gistToken = JStr ''ghp'', syncTime = JNum 5000, others = []\<rparr>,
              ls_document = ''{}'', ls_cache = EmptyObject\<rparr>,
        remote = [((''backup'', ''Sub-Store''), ''{}'')],
        trace = [ReadSettings, ReadSettings,
                 WriteSettings \<lparr>gistToken = JStr ''ghp'', syncTime = JNum 5000, others = []\<rparr>,
                 ReadAll, Info, GistUpload ''backup'' [(''Sub-Store'', ''{}'')]]\<rparr>) \<and>
   gistBackup (store_deps True 6000 None None) (Some ''download'')
      \<lparr>app = \<lparr>ls_settings = \<lparr>gistToken = JStr ''ghp'', syncTime = JNum 5000, others = []\<rparr>,
              ls_document = ''{}'', ls_cache = EmptyObject\<rparr>,
        remote = [((''backup'', ''Sub-Store''), ''{}'')],
        trace = [ReadSettings, ReadSettings,
                 WriteSettings \<lparr>gistToken = JStr ''ghp'', syncTime = JNum 5000, others = []\<rparr>,
                 ReadAll, Info, GistUpload ''backup'' [(''Sub-Store'', ''{}'')]]\<rparr>
   = (Success,
      \<lparr>app = \<lparr>ls_settings = \<lparr>gistToken = JStr ''ghp'', syncTime = JNum 5000, others = []\<rparr>,
              ls_document = ''{}'', ls_cache = EmptyObject\<rparr>,
        remote = [((''backup'', ''Sub-Store''), ''{}'')],
        trace = [ReadSettings, ReadSettings,
                 WriteSettings \<lparr>gistToken = JStr ''ghp'', syncTime = JNum 5000, others = []\<rparr>,
                 ReadAll, Info, GistUpload ''backup'' [(''Sub-Store'', ''{}'')],
                 ReadSettings, ReadSettings, Info, GistDownload ''backup'' ''Sub-Store'',
                 WriteAll ''{}'', SetCache, PersistCache, Migrate]\<rparr>) \<and>
   GIST_BACKUP_KEY (store_deps True 6000 None None) = GIST_BACKUP_KEY (store_deps False 5000 None None) \<and>
   GIST_BACKUP_FILE_NAME (store_deps True 6000 None None)
     = GIST_BACKUP_FILE_NAME (store_deps False 5000 None None) \<and>
   remote_download (store_deps True 6000 None None) ''backup'' ''Sub-Store''
     [((''backup'', ''Sub-Store''), ''{}'')] = Inr ''{}''"
proof -
  let ?d1 = "store_deps False 5000 None None"
  let ?d2 = "store_deps True 6000 None None"
  let ?w = "world0 (JStr ''ghp'') (JNum 1000) []"
  let ?s = "\<lparr>gistToken = JStr ''ghp'', syncTime = JNum 5000, others = []\<rparr>"
  let ?a = "\<lparr>ls_settings = ?s, ls_document = ''{}'', ls_cache = EmptyObject\<rparr>"
  let ?t1 = "[ReadSettings, ReadSettings, WriteSettings ?s, ReadAll, Info,
              GistUpload ''backup'' [(''Sub-Store'', ''{}'')]]"
  let ?w1 = "\<lparr>app = ?a, remote = [((''backup'', ''Sub-Store''), ''{}'')], trace = ?t1\<rparr>"
  let ?w2 = "\<lparr>app = ?a, remote = [((''backup'', ''Sub-Store''), ''{}'')],
              trace = ?t1 @ [ReadSettings, ReadSettings, Info, GistDownload ''backup'' ''Sub-Store'',
                 WriteAll ''{}'', SetCache, PersistCache, Migrate]\<rparr>"
  have h1: "gistBackup ?d1 (Some ''upload'') ?w = (Success, ?w1)"
    by (simp add: handler_defs remote_upload_def store_deps_def world0_def Let_def)
  have h2: "gistBackup ?d2 (Some ''download'') ?w1 = (Success, ?w2)"
    by (simp add: handler_defs remote_download_def store_deps_def Let_def)
  have h3: "GIST_BACKUP_KEY ?d2 = GIST_BACKUP_KEY ?d1" by (simp add: store_deps_def)
  have h4: "GIST_BACKUP_FILE_NAME ?d2 = GIST_BACKUP_FILE_NAME ?d1" by (simp add: store_deps_def)
  have k: "GIST_BACKUP_KEY ?d2 = ''backup''" "GIST_BACKUP_FILE_NAME ?d2 = ''Sub-Store''"
    by (simp_all add: store_deps_def)
  have b: "local_blob ?d1 ?a = ''{}''" by (simp add: local_blob_def store_deps_def)
  have "remote_download ?d2 ''backup'' ''Sub-Store'' [((''backup'', ''Sub-Store''), ''{}'')] = Inr ''{}''"
    using backup_round_trip [OF h1 h2 h3 h4] by (simp add: k b)
  with h1 h2 h3 h4 show ?thesis by simp
qed

text \<open>
  C7. When the remote download call fails, the handler fails with the code
  \<open>BACKUP_FAILED\<close> and has written nothing: the local store, its settings among it,
  is as it was before the attempt.
\<close>

theorem download_failure_leaves_store:
  assumes "truthy (gistToken (readSettings d (app w)))"
    and "remote_download d (GIST_BACKUP_KEY d) (GIST_BACKUP_FILE_NAME d) (remote w) = Inl err"
  shows "fst (gistBackup d (Some ''download'') w) = Failed (backup_failed (Some ''download'') err) \<and>
         error_code (backup_failed (Some ''download'') err) = ''BACKUP_FAILED'' \<and>
         app (snd (gistBackup d (Some ''download'') w)) = app w \<and>
         readSettings d (app (snd (gistBackup d (Some ''download'') w))) = readSettings d (app w) \<and>
         filter is_write (events d (Some ''download'') w) = []"
  using assms by (simp add: download_fail_result download_fail_events backup_failed_def)

theorem download_failure_leaves_store_witness:
  "truthy (gistToken (readSettings (store_deps False 5000 None (Some (Value (quoted ''timeout''))))
                        (app (world0 (JStr ''ghp'') (JNum 1000) [((''backup'', ''Sub-Store''), ''{}'')])))) \<and>
   remote_download (store_deps False 5000 None (Some (Value (quoted ''timeout''))))
      (GIST_BACKUP_KEY (store_deps False 5000 None (Some (Value (quoted ''timeout'')))))
      (GIST_BACKUP_FILE_NAME (store_deps False 5000 None (Some (Value (quoted ''timeout'')))))
      (remote (world0 (JStr ''ghp'') (JNum 1000) [((''backup'', ''Sub-Store''), ''{}'')]))
     = Inl (Value (quoted ''timeout'')) \<and>
   fst (gistBackup (store_deps False 5000 None (Some (Value (quoted ''timeout'')))) (Some ''download'')
          (world0 (JStr ''ghp'') (JNum 1000) [((''backup'', ''Sub-Store''), ''{}'')]))
     = Failed (InternalServerError ''BACKUP_FAILED'' ''Failed to download data to gist!''
                 (''Reason: '' @ quoted ''timeout'')) \<and>
   app (snd (gistBackup (store_deps False 5000 None (Some (Value (quoted ''timeout'')))) (Some ''download'')
               (world0 (JStr ''ghp'') (JNum 1000) [((''backup'', ''Sub-Store''), ''{}'')])))
     = app (world0 (JStr ''ghp'') (JNum 1000) [((''backup'', ''Sub-Store''), ''{}'')])"
proof -
  let ?d = "store_deps False 5000 None (Some (Value (quoted ''timeout'')))"
  let ?w = "world0 (JStr ''ghp'') (JNum 1000) [((''backup'', ''Sub-Store''), ''{}'')]"
  have h1: "truthy (gistToken (readSettings ?d (app ?w)))"
    by (simp add: store_deps_def world0_def)
  have h2: "remote_download ?d (GIST_BACKUP_KEY ?d) (GIST_BACKUP_FILE_NAME ?d) (remote ?w)
              = Inl (Value (quoted ''timeout''))"
    by (simp add: remote_download_def store_deps_def)
  show ?thesis
    using download_failure_leaves_store [OF h1 h2] h1 h2 by (simp add: backup_failed_def)
qed

text \<open>
  C8. In every upload attempt with a credential configured, on a store that reads back
  the settings that were written, the remote upload call is made in a world whose store
  already holds the settings with the new \<open>syncTime\<close>: the handler is the call of
  \<^verbatim>\<open>gist.upload\<close> in the world \<open>world_at_upload\<close>, followed by what the handler makes
  of its result; the settings read from the store of that world are the old ones with
  \<open>syncTime\<close> set to the clock reading; the blob sent is read from that store; and on
  the trace the write of those settings is among the calls before the upload call,
  none of which is a network call.
\<close>

theorem settings_persisted_before_upload:
  assumes "truthy (gistToken (readSettings d (app w)))"
    and "settings_persist d"
  shows "gistBackup d (Some ''upload'') w =
           upload_outcome d w
             (gist_upload d \<lparr>token = gistToken (readSettings d (app w)), key = GIST_BACKUP_KEY d\<rparr>
                [(GIST_BACKUP_FILE_NAME d, local_blob d (app (world_at_upload d w)))]
                (world_at_upload d w)) \<and>
         readSettings d (app (world_at_upload d w))
           = (readSettings d (app w))\<lparr>syncTime := JNum (now d)\<rparr> \<and>
         syncTime (readSettings d (app (world_at_upload d w))) = JNum (now d) \<and>
         WriteSettings ((readSettings d (app w))\<lparr>syncTime := JNum (now d)\<rparr>)
           \<in> set (drop (length (trace w)) (trace (world_at_upload d w))) \<and>
         filter is_network (drop (length (trace w)) (trace (world_at_upload d w))) = [] \<and>
         events d (Some ''upload'') w =
           drop (length (trace w)) (trace (world_at_upload d w)) @
           [GistUpload (GIST_BACKUP_KEY d)
              [(GIST_BACKUP_FILE_NAME d, local_blob d (app (world_at_upload d w)))]] @
           (case upload_fault d of
              None \<Rightarrow> []
            | Some err \<Rightarrow> [WriteSettings (readSettings d (app w))])"
proof -
  have run: "gistBackup d (Some ''upload'') w =
           upload_outcome d w
             (gist_upload d \<lparr>token = gistToken (readSettings d (app w)), key = GIST_BACKUP_KEY d\<rparr>
                [(GIST_BACKUP_FILE_NAME d, local_blob d (app (world_at_upload d w)))]
                (world_at_upload d w))"
    using assms(1)
    by (simp add: gistBackup_def try_body_def upload_case_def read_settings_def
          write_settings_def read_all_def get_cache_def info_def log_def
          upload_outcome_def world_at_upload_def stamped_def
          local_blob_def Let_def split: prod.splits option.splits)
  have st: "readSettings d (app (world_at_upload d w))
              = (readSettings d (app w))\<lparr>syncTime := JNum (now d)\<rparr>"
    using assms(2) by (simp add: world_at_upload_def stamped_def settings_persist_def)
  have tr: "drop (length (trace w)) (trace (world_at_upload d w)) =
      [ReadSettings, ReadSettings, WriteSettings (stamped d (app w)), ReadAll] @
         (if isNode d then [GetCache] else []) @ [Info]"
    by (simp add: world_at_upload_def)
  have ap: "app (world_at_upload d w) = writeSettings d (stamped d (app w)) (app w)"
    by (simp add: world_at_upload_def)
  have ev: "events d (Some ''upload'') w =
           drop (length (trace w)) (trace (world_at_upload d w)) @
           [GistUpload (GIST_BACKUP_KEY d)
              [(GIST_BACKUP_FILE_NAME d, local_blob d (app (world_at_upload d w)))]] @
           (case upload_fault d of
              None \<Rightarrow> []
            | Some err \<Rightarrow> [WriteSettings (readSettings d (app w))])"
  proof (cases "upload_fault d")
    case None
    with assms(1) show ?thesis
      unfolding tr ap by (simp add: upload_ok_events)
  next
    case (Some err)
    with assms(1) show ?thesis
      unfolding tr ap by (simp add: upload_fail_events)
  qed
  have nn: "filter is_network (drop (length (trace w)) (trace (world_at_upload d w))) = []"
    unfolding tr by simp
  have wr: "WriteSettings ((readSettings d (app w))\<lparr>syncTime := JNum (now d)\<rparr>)
           \<in> set (drop (length (trace w)) (trace (world_at_upload d w)))"
    unfolding tr by (simp add: stamped_def)
  from run st ev nn wr show ?thesis by simp
qed

theorem settings_persisted_before_upload_witness:
  "truthy (gistToken (readSettings (store_deps False 5000 (Some (PlainError ''Error'' ''socket hang up'')) None)
                        (app (world0 (JStr ''ghp'') (JNum 1000) [])))) \<and>
   settings_persist (store_deps False 5000 (Some (PlainError ''Error'' ''socket hang up'')) None) \<and>
   readSettings (store_deps False 5000 (Some (PlainError ''Error'' ''socket hang up'')) None)
     (app (world_at_upload (store_deps False 5000 (Some (PlainError ''Error'' ''socket hang up'')) None)
             (world0 (JStr ''ghp'') (JNum 1000) [])))
     = \<lparr>gistToken = JStr ''ghp'', syncTime = JNum 5000, others = []\<rparr> \<and>
   events (store_deps False 5000 (Some (PlainError ''Error'' ''socket hang up'')) None) (Some ''upload'')
     (world0 (JStr ''ghp'') (JNum 1000) [])
     = [ReadSettings, ReadSettings,
        WriteSettings \<lparr>gistToken = JStr ''ghp'', syncTime = JNum 5000, others = []\<rparr>,
        ReadAll, Info, GistUpload ''backup'' [(''Sub-Store'', ''{}'')],
        WriteSettings \<lparr>gistToken = JStr ''ghp'', syncTime = JNum 1000, others = []\<rparr>] \<and>
   gistBackup (store_deps False 5000 (Some (PlainError ''Error'' ''socket hang up'')) None) (Some ''upload'')
     (world0 (JStr ''ghp'') (JNum 1000) [])
     = upload_outcome (store_deps False 5000 (Some (PlainError ''Error'' ''socket hang up'')) None)
         (world0 (JStr ''ghp'') (JNum 1000) [])
         (gist_upload (store_deps False 5000 (Some (PlainError ''Error'' ''socket hang up'')) None)
            \<lparr>token = JStr ''ghp'', key = ''backup''\<rparr> [(''Sub-Store'', ''{}'')]
            (world_at_upload (store_deps False 5000 (Some (PlainError ''Error'' ''socket hang up'')) None)
               (world0 (JStr ''ghp'') (JNum 1000) [])))"
proof -
  let ?d = "store_deps False 5000 (Some (PlainError ''Error'' ''socket hang up'')) None"
  let ?w = "world0 (JStr ''ghp'') (JNum 1000) []"
  have h1: "truthy (gistToken (readSettings ?d (app ?w)))"
    by (simp add: store_deps_def world0_def)
  have h2: "settings_persist ?d" by (rule store_deps_persist)
  note r = settings_persisted_before_upload [OF h1 h2]
  have s0: "readSettings ?d (app ?w) = \<lparr>gistToken = JStr ''ghp'', syncTime = JNum 1000, others = []\<rparr>"
    by (simp add: store_deps_def world0_def)
  have k: "GIST_BACKUP_KEY ?d = ''backup''" "GIST_BACKUP_FILE_NAME ?d = ''Sub-Store''"
    "now ?d = 5000" "upload_fault ?d = Some (PlainError ''Error'' ''socket hang up'')"
    by (simp_all add: store_deps_def)
  have b: "local_blob ?d (app (world_at_upload ?d ?w)) = ''{}''"
    by (simp add: local_blob_def world_at_upload_def store_deps_def world0_def)
  have t: "drop (length (trace ?w)) (trace (world_at_upload ?d ?w))
     = [ReadSettings, ReadSettings,
        WriteSettings \<lparr>gistToken = JStr ''ghp'', syncTime = JNum 5000, others = []\<rparr>,
        ReadAll, Info]"
    by (simp add: world_at_upload_def stamped_def store_deps_def world0_def)
  have a: "readSettings ?d (app (world_at_upload ?d ?w))
     = \<lparr>gistToken = JStr ''ghp'', syncTime = JNum 5000, others = []\<rparr>"
    using r unfolding s0 k by simp
  have e: "events ?d (Some ''upload'') ?w
     = [ReadSettings, ReadSettings,
        WriteSettings \<lparr>gistToken = JStr ''ghp'', syncTime = JNum 5000, others = []\<rparr>,
        ReadAll, Info, GistUpload ''backup'' [(''Sub-Store'', ''{}'')],
        WriteSettings \<lparr>gistToken = JStr ''ghp'', syncTime = JNum 1000, others = []\<rparr>]"
    using r unfolding s0 k b t by simp
  have g: "gistBackup ?d (Some ''upload'') ?w
     = upload_outcome ?d ?w
         (gist_upload ?d \<lparr>token = JStr ''ghp'', key = ''backup''\<rparr> [(''Sub-Store'', ''{}'')]
            (world_at_upload ?d ?w))"
    using r unfolding s0 k b by simp
  from h1 h2 a e g show ?thesis by blast
qed

text \<open>
  C9. The codes are as claimed, but the reason string does not always include the
  cause. The reason is built with \<^verbatim>\<open>JSON.stringify(err)\<close>, which is \<open>{}\<close> for
  an \<^verbatim>\<open>Error\<close> with no enumerable property of its own. On Node, with a downloaded
  content that is not JSON, \<^verbatim>\<open>JSON.parse\<close> throws such a \<^verbatim>\<open>SyntaxError\<close> and the
  response says \<open>Reason: {}\<close>; the conversion \<^verbatim>\<open>${err}\<close> of \<^verbatim>\<open>getNodeInfo\<close>
  would have kept the name and the message.
\<close>

theorem reason_of_error_object:
  "error_code token_not_found = ''GIST_TOKEN_NOT_FOUND'' \<and>
   error_code (backup_failed action err) = ''BACKUP_FAILED'' \<and>
   error_details (backup_failed action (PlainError name msg)) = Some ''Reason: {}'' \<and>
   fst (gistBackup (store_deps True 5000 None None) (Some ''download'')
          (world0 (JStr ''ghp'') (JNum 1000) [((''backup'', ''Sub-Store''), ''not json'')]))
     = Failed (InternalServerError ''BACKUP_FAILED'' ''Failed to download data to gist!''
                 ''Reason: {}'') \<and>
   ''Reason: '' @ Error_toString ''SyntaxError'' ''Unexpected token''
     = ''Reason: SyntaxError: Unexpected token''"
  by (simp add: handler_defs remote_download_def backup_failed_def token_not_found_def
        Error_toString_def store_deps_def world0_def Let_def)

text \<open>
  C10. The credential check is on truthiness. With a token that is falsy (the empty
  string, \<open>null\<close>, \<open>false\<close>, \<open>0\<close>, NaN) the handler answers as it does with
  no token at all: the same \<open>GIST_TOKEN_NOT_FOUND\<close> failure, the same single call
  (the read of the settings), and no change to the local or the remote store.
\<close>

theorem falsy_token_is_no_token:
  assumes "\<not> truthy (gistToken (readSettings d (app w)))"
    and "gistToken (readSettings d' (app w')) = JUndefined"
  shows "fst (gistBackup d action w) = Failed token_not_found \<and>
         fst (gistBackup d action w) = fst (gistBackup d' action w') \<and>
         events d action w = events d' action w' \<and>
         events d action w = [ReadSettings] \<and>
         app (snd (gistBackup d action w)) = app w \<and>
         remote (snd (gistBackup d action w)) = remote w"
  using assms by (simp add: no_token_result no_token_events)

theorem falsy_token_is_no_token_witness:
  "\<not> truthy (gistToken (readSettings (store_deps False 5000 None None)
                          (app (world0 (JStr '''') (JNum 1000) [])))) \<and>
   gistToken (readSettings (store_deps False 5000 None None)
                (app (world0 JUndefined (JNum 1000) []))) = JUndefined \<and>
   fst (gistBackup (store_deps False 5000 None None) (Some ''upload'')
          (world0 (JStr '''') (JNum 1000) []))
     = Failed (RequestInvalidError ''GIST_TOKEN_NOT_FOUND'' ''GitHub Token is required for backup!'') \<and>
   fst (gistBackup (store_deps False 5000 None None) (Some ''upload'')
          (world0 (JStr '''') (JNum 1000) []))
     = fst (gistBackup (store_deps False 5000 None None) (Some ''upload'')
              (world0 JUndefined (JNum 1000) [])) \<and>
   events (store_deps False 5000 None None) (Some ''upload'') (world0 (JStr '''') (JNum 1000) [])
     = [ReadSettings]"
proof -
  let ?d = "store_deps False 5000 None None"
  let ?w = "world0 (JStr '''') (JNum 1000) []"
  let ?v = "world0 JUndefined (JNum 1000) []"
  have h1: "\<not> truthy (gistToken (readSettings ?d (app ?w)))"
    by (simp add: store_deps_def world0_def)
  have h2: "gistToken (readSettings ?d (app ?v)) = JUndefined"
    by (simp add: store_deps_def world0_def)
  note r = falsy_token_is_no_token [OF h1 h2, of "Some ''upload''"]
  have a: "fst (gistBackup ?d (Some ''upload'') ?w)
     = Failed (RequestInvalidError ''GIST_TOKEN_NOT_FOUND'' ''GitHub Token is required for backup!'')"
    using r unfolding token_not_found_def by blast
  have b: "fst (gistBackup ?d (Some ''upload'') ?w) = fst (gistBackup ?d (Some ''upload'') ?v)"
    using r by blast
  have c: "events ?d (Some ''upload'') ?w = [ReadSettings]"
    using r by blast
  show ?thesis using h1 h2 a b c by blast
qed

end
